theory Spec2Isabelle
  imports Main
begin

section \<open>Theme state management of the blog: the browser environment\<close>

text \<open>
  The theme logic of the site is published in two posts:
  \<^verbatim>\<open>src/content/blog/dark-mode-implementation.md\<close> (inline head script, storage
  listener, toggle component) and \<^verbatim>\<open>src/content/blog/astro-blog-guide.md\<close> (a second
  version of the inline head script). The scripts are JavaScript over three ambient
  objects: \<^verbatim>\<open>localStorage\<close>, \<^verbatim>\<open>window.matchMedia\<close> and the class list of the root
  element. Each is a field of the record \<open>page\<close> below; a script is a function from a page
  to its completion and the page it leaves behind.
\<close>

text \<open>A JavaScript value as the scripts see it: \<^verbatim>\<open>getItem\<close> yields a string or \<^verbatim>\<open>null\<close>.\<close>

datatype jsval = Null | Str string

text \<open>The exceptions the storage API can raise.\<close>

datatype exn = ReferenceError | SecurityError | QuotaExceededError

text \<open>A statement or expression either completes normally or throws.\<close>

datatype 'a completion = Normal 'a | Throw exn

text \<open>
  The storage area of the origin: its key/value pairs, and the number of code units the
  quota still leaves free. A pair takes up the length of its key plus the length of its
  value, so whether a write fits depends on what is written and on what it replaces.
\<close>

record storageArea =
  items :: "string \<rightharpoonup> string"
  freeUnits :: nat

definition pairSize :: "string \<Rightarrow> string \<Rightarrow> nat" where
  "pairSize k v = length k + length v"

text \<open>What the pair stored under a key takes up now; nothing when the key is absent.\<close>

definition heldBy :: "storageArea \<Rightarrow> string \<Rightarrow> nat" where
  "heldBy a k = (case items a k of None \<Rightarrow> 0 | Some w \<Rightarrow> pairSize k w)"

text \<open>
  The identifier \<^verbatim>\<open>localStorage\<close>: not defined at all (\<^verbatim>\<open>typeof\<close> gives
  \<^verbatim>\<open>'undefined'\<close>), defined with a getter that throws on every access (a restricted
  context), or defined and holding a storage area.
\<close>

datatype storage = NotDefined | AccessDenied | Defined storageArea

text \<open>
  A view of the site: the shared store, the answer of
  \<^verbatim>\<open>window.matchMedia('(prefers-color-scheme: dark)').matches\<close>, the class list of
  \<^verbatim>\<open>document.documentElement\<close>, and the class lists of the two icons of the toggle.
\<close>

record page =
  localStorage :: storage
  prefersDark :: bool
  classList :: "string list"
  sunIcon :: "string list"
  moonIcon :: "string list"

subsection \<open>Primitives of the environment\<close>

text \<open>\<^verbatim>\<open>typeof localStorage !== 'undefined'\<close>: only an unresolvable name is quiet.\<close>

fun typeofDefined :: "storage \<Rightarrow> bool completion" where
  "typeofDefined NotDefined = Normal False"
| "typeofDefined AccessDenied = Throw SecurityError"
| "typeofDefined (Defined a) = Normal True"

text \<open>\<^verbatim>\<open>localStorage.getItem(k)\<close>: \<^verbatim>\<open>null\<close> for a missing key.\<close>

fun getItem :: "storage \<Rightarrow> string \<Rightarrow> jsval completion" where
  "getItem NotDefined k = Throw ReferenceError"
| "getItem AccessDenied k = Throw SecurityError"
| "getItem (Defined a) k = Normal (case items a k of None \<Rightarrow> Null | Some v \<Rightarrow> Str v)"

text \<open>
  \<^verbatim>\<open>localStorage.setItem(k, v)\<close>: the completion and the store afterwards. The new
  pair replaces the old one under the key; when it does not fit into the space the old
  pair gives back plus the free space, the call throws and stores nothing.
\<close>

fun setItem :: "storage \<Rightarrow> string \<Rightarrow> string \<Rightarrow> unit completion \<times> storage" where
  "setItem NotDefined k v = (Throw ReferenceError, NotDefined)"
| "setItem AccessDenied k v = (Throw SecurityError, AccessDenied)"
| "setItem (Defined a) k v =
     (if heldBy a k + freeUnits a < pairSize k v then (Throw QuotaExceededError, Defined a)
      else (Normal (),
            Defined (a\<lparr>items := (items a)(k \<mapsto> v),
                       freeUnits := heldBy a k + freeUnits a - pairSize k v\<rparr>)))"

text \<open>Truthiness of a value in a condition or under \<^verbatim>\<open>||\<close>.\<close>

fun truthy :: "jsval \<Rightarrow> bool" where
  "truthy Null = False"
| "truthy (Str s) = (s \<noteq> [])"

text \<open>\<^verbatim>\<open>matchMedia(...).matches ? 'dark' : 'light'\<close>.\<close>

definition systemTheme :: "page \<Rightarrow> jsval" where
  "systemTheme p = Str (if prefersDark p then ''dark'' else ''light'')"

text \<open>\<^verbatim>\<open>classList.add(t)\<close> and \<^verbatim>\<open>classList.remove(t)\<close> on an ordered token set.\<close>

definition classList_add :: "string \<Rightarrow> string list \<Rightarrow> string list" where
  "classList_add t cl = (if t \<in> set cl then cl else cl @ [t])"

definition classList_remove :: "string \<Rightarrow> string list \<Rightarrow> string list" where
  "classList_remove t cl = filter (\<lambda>x. x \<noteq> t) cl"

text \<open>The document marker: the class \<^verbatim>\<open>dark\<close> on the root element.\<close>

definition hasDark :: "page \<Rightarrow> bool" where
  "hasDark p = (''dark'' \<in> set (classList p))"

section \<open>The scripts\<close>

text \<open>
  \<^verbatim>\<open>const isDark = t === 'dark';\<close>
  \<^verbatim>\<open>document.documentElement.classList[isDark ? 'add' : 'remove']('dark');\<close>
  The two lines every script uses to apply a theme.
\<close>

definition applyTheme :: "jsval \<Rightarrow> string list \<Rightarrow> string list" where
  "applyTheme t cl =
     (if t = Str ''dark'' then classList_add ''dark'' cl else classList_remove ''dark'' cl)"

text \<open>\<^verbatim>\<open>getThemePreference\<close> of dark-mode-implementation.md, lines 57 to 66.\<close>

definition getThemePreference :: "page \<Rightarrow> jsval completion" where
  "getThemePreference p =
     (case typeofDefined (localStorage p) of
        Throw e \<Rightarrow> Throw e
      | Normal d \<Rightarrow>
          (if d then
             (case getItem (localStorage p) ''theme'' of
                Throw e \<Rightarrow> Throw e
              | Normal v \<Rightarrow>
                  (if truthy v then getItem (localStorage p) ''theme''
                   else Normal (systemTheme p)))
           else Normal (systemTheme p)))"

text \<open>\<^verbatim>\<open>getThemePreference\<close> of astro-blog-guide.md, lines 205 to 212.\<close>

definition getThemePreference_guide :: "page \<Rightarrow> jsval completion" where
  "getThemePreference_guide p =
     (case typeofDefined (localStorage p) of
        Throw e \<Rightarrow> Throw e
      | Normal d \<Rightarrow>
          (if d then getItem (localStorage p) ''theme''
           else Normal (systemTheme p)))"

text \<open>The inline head script of dark-mode-implementation.md, lines 56 to 71.\<close>

definition initializeOnLoad :: "page \<Rightarrow> unit completion \<times> page" where
  "initializeOnLoad p =
     (case getThemePreference p of
        Throw e \<Rightarrow> (Throw e, p)
      | Normal t \<Rightarrow> (Normal (), p\<lparr>classList := applyTheme t (classList p)\<rparr>))"

text \<open>The inline head script of astro-blog-guide.md, lines 204 to 217.\<close>

definition initializeOnLoad_guide :: "page \<Rightarrow> unit completion \<times> page" where
  "initializeOnLoad_guide p =
     (case getThemePreference_guide p of
        Throw e \<Rightarrow> (Throw e, p)
      | Normal t \<Rightarrow> (Normal (), p\<lparr>classList := applyTheme t (classList p)\<rparr>))"

text \<open>A storage event as the listener reads it: \<^verbatim>\<open>e.key\<close> and \<^verbatim>\<open>e.newValue\<close>.\<close>

record storageEvent =
  key :: jsval
  newValue :: jsval

text \<open>The storage listener of dark-mode-implementation.md, lines 92 to 97.\<close>

definition onStorage :: "storageEvent \<Rightarrow> page \<Rightarrow> unit completion \<times> page" where
  "onStorage e p =
     (if key e = Str ''theme''
      then (Normal (), p\<lparr>classList := applyTheme (newValue e) (classList p)\<rparr>)
      else (Normal (), p))"

text \<open>\<^verbatim>\<open>getCurrentTheme\<close> of the toggle component, lines 120 to 123.\<close>

definition getCurrentTheme :: "page \<Rightarrow> jsval completion" where
  "getCurrentTheme p =
     (case getItem (localStorage p) ''theme'' of
        Throw e \<Rightarrow> Throw e
      | Normal v \<Rightarrow> Normal (if truthy v then v else systemTheme p))"

text \<open>\<^verbatim>\<open>updateIcons\<close> of the toggle component, lines 125 to 133.\<close>

definition updateIcons :: "jsval \<Rightarrow> page \<Rightarrow> page" where
  "updateIcons t p =
     (if t = Str ''dark''
      then p\<lparr>moonIcon := classList_remove ''hidden'' (moonIcon p),
             sunIcon := classList_add ''hidden'' (sunIcon p)\<rparr>
      else p\<lparr>moonIcon := classList_add ''hidden'' (moonIcon p),
             sunIcon := classList_remove ''hidden'' (sunIcon p)\<rparr>)"

text \<open>\<^verbatim>\<open>currentTheme === 'dark' ? 'light' : 'dark'\<close>, line 141.\<close>

definition newThemeOf :: "jsval \<Rightarrow> string" where
  "newThemeOf t = (if t = Str ''dark'' then ''light'' else ''dark'')"

text \<open>
  The click listener of the toggle, lines 139 to 151: the marker is changed first, then
  the store is written, then the icons are updated; a throw leaves what was done before it.
\<close>

definition toggleClick :: "page \<Rightarrow> unit completion \<times> page" where
  "toggleClick p =
     (case getCurrentTheme p of
        Throw e \<Rightarrow> (Throw e, p)
      | Normal currentTheme \<Rightarrow>
          (let newTheme = newThemeOf currentTheme;
               p1 = p\<lparr>classList := applyTheme (Str newTheme) (classList p)\<rparr>
           in case setItem (localStorage p1) ''theme'' newTheme of
                (Throw e, st) \<Rightarrow> (Throw e, p1\<lparr>localStorage := st\<rparr>)
              | (Normal u, st) \<Rightarrow>
                  (Normal (), updateIcons (Str newTheme) (p1\<lparr>localStorage := st\<rparr>))))"

section \<open>Auxiliary notions for the statements\<close>

text \<open>The key/value pairs a store holds; a store that is not there holds none.\<close>

fun itemsOf :: "storage \<Rightarrow> (string \<rightharpoonup> string)" where
  "itemsOf (Defined a) = items a"
| "itemsOf NotDefined = Map.empty"
| "itemsOf AccessDenied = Map.empty"

text \<open>
  A store that is defined and accepts writes: the write of either theme under the key
  \<^verbatim>\<open>theme\<close> completes.
\<close>

definition usable :: "storage \<Rightarrow> bool" where
  "usable st =
     (fst (setItem st ''theme'' ''dark'') = Normal () \<and>
      fst (setItem st ''theme'' ''light'') = Normal ())"

text \<open>A store with the given pairs and ample room for more.\<close>

definition storeOf :: "(string \<rightharpoonup> string) \<Rightarrow> storage" where
  "storeOf m = Defined \<lparr>items = m, freeUnits = 5000000\<rparr>"

text \<open>A store with the given pairs and the given number of code units free.\<close>

definition storeWithRoom :: "(string \<rightharpoonup> string) \<Rightarrow> nat \<Rightarrow> storage" where
  "storeWithRoom m n = Defined \<lparr>items = m, freeUnits = n\<rparr>"

text \<open>
  A freshly parsed page before any script has run: no class on the root element, both
  icons of the toggle carrying \<^verbatim>\<open>class="hidden"\<close> as in the component's markup.
\<close>

definition freshPage :: "storage \<Rightarrow> bool \<Rightarrow> page" where
  "freshPage st d =
     \<lparr>localStorage = st, prefersDark = d, classList = [],
      sunIcon = [''hidden''], moonIcon = [''hidden'']\<rparr>"

text \<open>
  The derivation of the effective theme in the words of the specification's data model:
  the preference if present, else the colour scheme the operating environment reports,
  defaulting to light. It is the reference the storage listener is compared with.
\<close>

definition spec_effectiveTheme :: "jsval \<Rightarrow> bool \<Rightarrow> jsval" where
  "spec_effectiveTheme pref osDark =
     (case pref of
        Str v \<Rightarrow> Str v
      | Null \<Rightarrow> Str (if osDark then ''dark'' else ''light''))"

section \<open>Basic facts about the scripts\<close>

lemma getItem_storeOf [simp]:
  "getItem (storeOf m) k = Normal (case m k of None \<Rightarrow> Null | Some v \<Rightarrow> Str v)"
  by (simp add: storeOf_def)

lemma typeofDefined_storeOf [simp]: "typeofDefined (storeOf m) = Normal True"
  by (simp add: storeOf_def)

lemma usable_storeOf [simp]: "usable (storeOf m)"
  by (simp add: usable_def storeOf_def pairSize_def)

lemma freshPage_sel [simp]:
  "localStorage (freshPage st d) = st" "prefersDark (freshPage st d) = d"
  "classList (freshPage st d) = []"
  by (simp_all add: freshPage_def)

lemma getThemePreference_Defined:
  "localStorage p = Defined a \<Longrightarrow>
   getThemePreference p =
     Normal (case items a ''theme'' of
               None \<Rightarrow> systemTheme p
             | Some v \<Rightarrow> if v = [] then systemTheme p else Str v)"
  by (simp add: getThemePreference_def split: option.splits)

lemma getThemePreference_NotDefined:
  "localStorage p = NotDefined \<Longrightarrow> getThemePreference p = Normal (systemTheme p)"
  by (simp add: getThemePreference_def)

lemma getThemePreference_AccessDenied:
  "localStorage p = AccessDenied \<Longrightarrow> getThemePreference p = Throw SecurityError"
  by (simp add: getThemePreference_def)

lemma getThemePreference_value:
  assumes "localStorage p \<noteq> AccessDenied"
  shows "getThemePreference p =
     Normal (case itemsOf (localStorage p) ''theme'' of
               None \<Rightarrow> systemTheme p
             | Some v \<Rightarrow> if v = [] then systemTheme p else Str v)"
proof (cases "localStorage p")
  case NotDefined
  then show ?thesis by (simp add: getThemePreference_NotDefined)
next
  case AccessDenied
  with assms show ?thesis by simp
next
  case (Defined a)
  then show ?thesis by (simp add: getThemePreference_Defined)
qed

lemma getCurrentTheme_Defined:
  "localStorage p = Defined a \<Longrightarrow>
   getCurrentTheme p =
     Normal (case items a ''theme'' of
               None \<Rightarrow> systemTheme p
             | Some v \<Rightarrow> if v = [] then systemTheme p else Str v)"
  by (simp add: getCurrentTheme_def split: option.splits)

lemma toggleClick_Defined:
  assumes "localStorage p = Defined a"
    and "getCurrentTheme p = Normal t"
    and "pairSize ''theme'' (newThemeOf t) \<le> heldBy a ''theme'' + freeUnits a"
  shows "toggleClick p =
     (Normal (),
      updateIcons (Str (newThemeOf t))
        (p\<lparr>classList := applyTheme (Str (newThemeOf t)) (classList p),
           localStorage :=
             Defined (a\<lparr>items := (items a)(''theme'' \<mapsto> newThemeOf t),
                        freeUnits := heldBy a ''theme'' + freeUnits a
                                       - pairSize ''theme'' (newThemeOf t)\<rparr>)\<rparr>))"
  using assms by (simp add: toggleClick_def Let_def)

lemma toggleClick_full:
  assumes "localStorage p = Defined a"
    and "getCurrentTheme p = Normal t"
    and "heldBy a ''theme'' + freeUnits a < pairSize ''theme'' (newThemeOf t)"
  shows "toggleClick p =
     (Throw QuotaExceededError,
      p\<lparr>classList := applyTheme (Str (newThemeOf t)) (classList p),
        localStorage := Defined a\<rparr>)"
  using assms by (simp add: toggleClick_def Let_def)

lemma updateIcons_sel [simp]:
  "localStorage (updateIcons t p) = localStorage p"
  "prefersDark (updateIcons t p) = prefersDark p"
  "classList (updateIcons t p) = classList p"
  by (simp_all add: updateIcons_def)

lemma newThemeOf_nonempty [simp]: "newThemeOf t \<noteq> []"
  by (simp add: newThemeOf_def)

lemma toggleClick_Normal:
  assumes "fst (toggleClick p) = Normal ()"
  obtains a t where "localStorage p = Defined a" and "getCurrentTheme p = Normal t"
    and "pairSize ''theme'' (newThemeOf t) \<le> heldBy a ''theme'' + freeUnits a"
proof (cases "localStorage p")
  case NotDefined
  with assms show ?thesis by (simp add: toggleClick_def getCurrentTheme_def)
next
  case AccessDenied
  with assms show ?thesis by (simp add: toggleClick_def getCurrentTheme_def)
next
  case (Defined a)
  then obtain t where t: "getCurrentTheme p = Normal t"
    by (simp add: getCurrentTheme_Defined)
  have "pairSize ''theme'' (newThemeOf t) \<le> heldBy a ''theme'' + freeUnits a"
  proof (rule ccontr)
    assume "\<not> pairSize ''theme'' (newThemeOf t) \<le> heldBy a ''theme'' + freeUnits a"
    then have "heldBy a ''theme'' + freeUnits a < pairSize ''theme'' (newThemeOf t)"
      by simp
    from toggleClick_full [OF Defined t this] assms show False by simp
  qed
  with Defined t show ?thesis by (rule that)
qed

lemma toggleClick_result:
  assumes "fst (toggleClick p) = Normal ()"
  shows "\<exists>t. getCurrentTheme p = Normal t \<and>
             getCurrentTheme (snd (toggleClick p)) = Normal (Str (newThemeOf t)) \<and>
             getThemePreference (snd (toggleClick p)) = Normal (Str (newThemeOf t)) \<and>
             classList (snd (toggleClick p)) = applyTheme (Str (newThemeOf t)) (classList p)"
proof -
  from assms obtain a t where a: "localStorage p = Defined a"
    and t: "getCurrentTheme p = Normal t"
    and room: "pairSize ''theme'' (newThemeOf t) \<le> heldBy a ''theme'' + freeUnits a"
    by (rule toggleClick_Normal)
  note eq = toggleClick_Defined [OF a t room]
  let ?a' = "a\<lparr>items := (items a)(''theme'' \<mapsto> newThemeOf t),
                freeUnits := heldBy a ''theme'' + freeUnits a
                               - pairSize ''theme'' (newThemeOf t)\<rparr>"
  have st: "localStorage (snd (toggleClick p)) = Defined ?a'"
    by (simp add: eq)
  show ?thesis
    using t getCurrentTheme_Defined [OF st] getThemePreference_Defined [OF st]
    by (simp add: eq)
qed

lemma toggleClick_usable:
  assumes "usable (localStorage p)"
  shows "\<exists>t. getCurrentTheme p = Normal t \<and> fst (toggleClick p) = Normal ()"
proof -
  from assms obtain a where a: "localStorage p = Defined a"
    by (cases "localStorage p") (auto simp: usable_def)
  from a obtain t where t: "getCurrentTheme p = Normal t"
    by (simp add: getCurrentTheme_Defined)
  from assms a have "pairSize ''theme'' (newThemeOf t) \<le> heldBy a ''theme'' + freeUnits a"
    by (auto simp: usable_def newThemeOf_def split: if_splits)
  from toggleClick_Defined [OF a t this] t show ?thesis by simp
qed

lemma toggleClick_store_cases:
  "localStorage (snd (toggleClick p)) = localStorage p \<or>
   (\<exists>a n. localStorage p = Defined a \<and>
        (localStorage (snd (toggleClick p)) =
           Defined (a\<lparr>items := (items a)(''theme'' \<mapsto> ''dark''), freeUnits := n\<rparr>) \<or>
         localStorage (snd (toggleClick p)) =
           Defined (a\<lparr>items := (items a)(''theme'' \<mapsto> ''light''), freeUnits := n\<rparr>)))"
proof (cases "localStorage p")
  case NotDefined
  then show ?thesis by (simp add: toggleClick_def getCurrentTheme_def)
next
  case AccessDenied
  then show ?thesis by (simp add: toggleClick_def getCurrentTheme_def)
next
  case (Defined a)
  then obtain t where t: "getCurrentTheme p = Normal t"
    by (simp add: getCurrentTheme_Defined)
  show ?thesis
  proof (cases "heldBy a ''theme'' + freeUnits a < pairSize ''theme'' (newThemeOf t)")
    case True
    show ?thesis
      using Defined by (simp add: toggleClick_full [OF Defined t True])
  next
    case False
    then have room: "pairSize ''theme'' (newThemeOf t) \<le> heldBy a ''theme'' + freeUnits a"
      by simp
    have "localStorage (snd (toggleClick p)) =
            Defined (a\<lparr>items := (items a)(''theme'' \<mapsto> newThemeOf t),
                       freeUnits := heldBy a ''theme'' + freeUnits a
                                      - pairSize ''theme'' (newThemeOf t)\<rparr>)"
      by (simp add: toggleClick_Defined [OF Defined t room])
    then have "\<exists>n. localStorage (snd (toggleClick p)) =
                 Defined (a\<lparr>items := (items a)(''theme'' \<mapsto> ''dark''), freeUnits := n\<rparr>) \<or>
               localStorage (snd (toggleClick p)) =
                 Defined (a\<lparr>items := (items a)(''theme'' \<mapsto> ''light''), freeUnits := n\<rparr>)"
      by (cases "t = Str ''dark''") (auto simp: newThemeOf_def)
    with Defined show ?thesis by blast
  qed
qed

lemma initializeOnLoad_store: "localStorage (snd (initializeOnLoad p)) = localStorage p"
  by (simp add: initializeOnLoad_def split: completion.splits)

lemma initializeOnLoad_guide_store:
  "localStorage (snd (initializeOnLoad_guide p)) = localStorage p"
  by (simp add: initializeOnLoad_guide_def split: completion.splits)

lemma onStorage_store: "localStorage (snd (onStorage e p)) = localStorage p"
  by (simp add: onStorage_def)

section \<open>Idempotence of applying a theme\<close>

lemma classList_add_idem: "classList_add t (classList_add t cl) = classList_add t cl"
  by (simp add: classList_add_def)

lemma classList_remove_idem:
  "classList_remove t (classList_remove t cl) = classList_remove t cl"
  by (simp add: classList_remove_def)

text \<open>
  Claim C8. Applying a theme is idempotent: for every theme value and every class list
  of the root element, applying the theme twice in succession leaves the same class list
  (hence the same marker) as applying it once.
\<close>

theorem applyTheme_idempotent:
  "applyTheme t (applyTheme t cl) = applyTheme t cl"
  by (simp add: applyTheme_def classList_add_idem classList_remove_idem)

section \<open>Resolving the effective theme\<close>

text \<open>
  Claim C1, as stated: for every state of the store (key absent, key holding any
  string, store undefined) and every colour-scheme signal, \<open>getThemePreference\<close> returns
  exactly \<^verbatim>\<open>'dark'\<close> or \<^verbatim>\<open>'light'\<close>. It fails when the key holds another string: with
  \<^verbatim>\<open>theme = "blue"\<close> the function returns \<^verbatim>\<open>"blue"\<close>, the stored value verbatim.
\<close>

theorem getThemePreference_any_string_counterexample:
  "getThemePreference (freshPage (storeOf [''theme'' \<mapsto> ''blue'']) False)
     \<notin> {Normal (Str ''dark''), Normal (Str ''light'')}"
  by (simp add: getThemePreference_def)

text \<open>
  Claim C1, amended. For every store whose access does not throw (key absent, key
  holding any string, or \<^verbatim>\<open>localStorage\<close> undefined) and every colour-scheme signal,
  \<open>getThemePreference\<close> of dark-mode-implementation.md returns a non-empty string, never
  \<^verbatim>\<open>null\<close>: the stored string verbatim when it is non-empty, else \<^verbatim>\<open>'dark'\<close> or
  \<^verbatim>\<open>'light'\<close> from the colour-scheme signal. So it returns exactly \<^verbatim>\<open>'dark'\<close> or
  \<^verbatim>\<open>'light'\<close> whenever the key is absent, empty, \<^verbatim>\<open>'dark'\<close> or \<^verbatim>\<open>'light'\<close>.
\<close>

theorem getThemePreference_total:
  assumes "localStorage p \<noteq> AccessDenied"
  shows "(\<exists>s. s \<noteq> [] \<and> getThemePreference p = Normal (Str s)) \<and>
         getThemePreference p =
           Normal (case itemsOf (localStorage p) ''theme'' of
                     None \<Rightarrow> systemTheme p
                   | Some v \<Rightarrow> if v = [] then systemTheme p else Str v) \<and>
         (itemsOf (localStorage p) ''theme'' \<in> {None, Some [], Some ''dark'', Some ''light''}
            \<longrightarrow> getThemePreference p \<in> {Normal (Str ''dark''), Normal (Str ''light'')})"
  using getThemePreference_value [OF assms]
  by (auto simp: systemTheme_def split: option.splits)

theorem getThemePreference_total_witness:
  "localStorage (freshPage (storeOf [''theme'' \<mapsto> ''light'']) True) \<noteq> AccessDenied \<and>
   getThemePreference (freshPage (storeOf [''theme'' \<mapsto> ''light'']) True) = Normal (Str ''light'') \<and>
   getThemePreference (freshPage (storeOf Map.empty) True) = Normal (Str ''dark'') \<and>
   getThemePreference (freshPage NotDefined False)
     \<in> {Normal (Str ''dark''), Normal (Str ''light'')}"
  using getThemePreference_total [of "freshPage (storeOf [''theme'' \<mapsto> ''light'']) True"]
        getThemePreference_total [of "freshPage (storeOf Map.empty) True"]
        getThemePreference_total [of "freshPage NotDefined False"]
  by (simp add: storeOf_def systemTheme_def)

text \<open>
  Claim C5. With a store present: a persisted preference (any non-empty string, so
  \<^verbatim>\<open>'dark'\<close> and \<^verbatim>\<open>'light'\<close> in particular) is returned verbatim whatever the
  colour-scheme signal says; with no value persisted the result is \<^verbatim>\<open>'dark'\<close> exactly
  when the signal is active, else \<^verbatim>\<open>'light'\<close>. This holds of \<open>getCurrentTheme\<close> and of
  \<open>getThemePreference\<close> of dark-mode-implementation.md.
\<close>

theorem stored_preference_wins:
  assumes "localStorage p = Defined a"
  shows "(\<forall>v. items a ''theme'' = Some v \<and> v \<noteq> [] \<longrightarrow>
            getCurrentTheme p = Normal (Str v) \<and> getThemePreference p = Normal (Str v)) \<and>
         (items a ''theme'' = None \<longrightarrow>
            getCurrentTheme p = Normal (Str (if prefersDark p then ''dark'' else ''light'')) \<and>
            getThemePreference p = Normal (Str (if prefersDark p then ''dark'' else ''light'')))"
  using getCurrentTheme_Defined [OF assms] getThemePreference_Defined [OF assms]
  by (simp add: systemTheme_def)

theorem stored_preference_wins_witness:
  "localStorage (freshPage (storeOf [''theme'' \<mapsto> ''light'']) True)
     = Defined \<lparr>items = [''theme'' \<mapsto> ''light''], freeUnits = 5000000\<rparr> \<and>
   getCurrentTheme (freshPage (storeOf [''theme'' \<mapsto> ''light'']) True) = Normal (Str ''light'') \<and>
   localStorage (freshPage (storeOf Map.empty) True)
     = Defined \<lparr>items = Map.empty, freeUnits = 5000000\<rparr> \<and>
   getCurrentTheme (freshPage (storeOf Map.empty) True) = Normal (Str ''dark'')"
proof -
  have h1: "localStorage (freshPage (storeOf [''theme'' \<mapsto> ''light'']) True)
     = Defined \<lparr>items = [''theme'' \<mapsto> ''light''], freeUnits = 5000000\<rparr>"
    by (simp add: storeOf_def)
  have h2: "localStorage (freshPage (storeOf Map.empty) True)
     = Defined \<lparr>items = Map.empty, freeUnits = 5000000\<rparr>"
    by (simp add: storeOf_def)
  show ?thesis
    using h1 h2 stored_preference_wins [OF h1] stored_preference_wins [OF h2] by simp
qed

section \<open>Toggling\<close>

text \<open>
  Claim C2, as stated: from any store contents, toggling and resolving yields the
  opposite theme and doing so twice returns to the starting theme. It fails when the key
  holds a string that is neither theme: from \<^verbatim>\<open>theme = "blue"\<close> the first toggle writes
  \<^verbatim>\<open>'dark'\<close>, the second \<^verbatim>\<open>'light'\<close>, and the resolved theme never returns to
  \<^verbatim>\<open>"blue"\<close>.
\<close>

theorem toggle_involution_counterexample:
  "getCurrentTheme (snd (toggleClick (snd (toggleClick
      (freshPage (storeOf [''theme'' \<mapsto> ''blue'']) False)))))
   \<noteq> getCurrentTheme (freshPage (storeOf [''theme'' \<mapsto> ''blue'']) False)"
  by (simp add: getCurrentTheme_def toggleClick_def newThemeOf_def Let_def storeOf_def
      freshPage_def updateIcons_def pairSize_def heldBy_def)

text \<open>
  Claim C2, amended. When the starting resolved theme \<open>T\<close> is \<^verbatim>\<open>'dark'\<close> or
  \<^verbatim>\<open>'light'\<close> and the click completes, a fresh resolution (by \<open>getCurrentTheme\<close> or by
  \<open>getThemePreference\<close>) yields the opposite of \<open>T\<close>; when a second click completes as
  well, the resolved theme is \<open>T\<close> again. Completion of each click is a hypothesis of its
  own: the second write can fail where the first succeeded.
\<close>

theorem toggle_involution:
  assumes "getCurrentTheme p = Normal (Str T)"
    and "T = ''dark'' \<or> T = ''light''"
    and "fst (toggleClick p) = Normal ()"
  shows "getCurrentTheme (snd (toggleClick p)) =
           Normal (Str (if T = ''dark'' then ''light'' else ''dark'')) \<and>
         getThemePreference (snd (toggleClick p)) =
           Normal (Str (if T = ''dark'' then ''light'' else ''dark'')) \<and>
         (fst (toggleClick (snd (toggleClick p))) = Normal () \<longrightarrow>
            getCurrentTheme (snd (toggleClick (snd (toggleClick p)))) = Normal (Str T) \<and>
            getThemePreference (snd (toggleClick (snd (toggleClick p)))) = Normal (Str T))"
proof -
  let ?q = "snd (toggleClick p)"
  from toggleClick_result [OF assms(3)] assms(1)
  have one: "getCurrentTheme ?q = Normal (Str (newThemeOf (Str T)))"
    "getThemePreference ?q = Normal (Str (newThemeOf (Str T)))"
    by auto
  from assms(2) have twice: "newThemeOf (Str (newThemeOf (Str T))) = T"
    by (auto simp: newThemeOf_def)
  have two: "getCurrentTheme (snd (toggleClick ?q)) = Normal (Str T) \<and>
             getThemePreference (snd (toggleClick ?q)) = Normal (Str T)"
    if "fst (toggleClick ?q) = Normal ()"
    using toggleClick_result [OF that] one(1) twice by auto
  show ?thesis
    using one two by (simp add: newThemeOf_def)
qed

theorem toggle_involution_witness:
  "getCurrentTheme (freshPage (storeOf Map.empty) False) = Normal (Str ''light'') \<and>
   fst (toggleClick (freshPage (storeOf Map.empty) False)) = Normal () \<and>
   getCurrentTheme (snd (toggleClick (freshPage (storeOf Map.empty) False))) = Normal (Str ''dark'') \<and>
   fst (toggleClick (snd (toggleClick (freshPage (storeOf Map.empty) False)))) = Normal () \<and>
   getCurrentTheme (snd (toggleClick (snd (toggleClick (freshPage (storeOf Map.empty) False)))))
     = Normal (Str ''light'')"
proof -
  let ?p = "freshPage (storeOf Map.empty) False"
  have h1: "getCurrentTheme ?p = Normal (Str ''light'')"
    by (simp add: getCurrentTheme_def systemTheme_def)
  have h2: "''light'' = ''dark'' \<or> ''light'' = ''light''" by simp
  have u1: "usable (localStorage ?p)" by simp
  have h3: "fst (toggleClick ?p) = Normal ()"
    using toggleClick_usable [OF u1] by blast
  have h4: "fst (toggleClick (snd (toggleClick ?p))) = Normal ()"
    by (simp add: getCurrentTheme_def toggleClick_def newThemeOf_def Let_def storeOf_def
        freshPage_def systemTheme_def updateIcons_def pairSize_def heldBy_def)
  show ?thesis
    using h1 h3 h4 toggle_involution [OF h1 h2 h3] by simp
qed

text \<open>
  Why the second click needs its own hypothesis: \<^verbatim>\<open>'light'\<close> is one code unit longer
  than \<^verbatim>\<open>'dark'\<close>. On a store with exactly nine units free the first click writes
  \<^verbatim>\<open>'dark'\<close> and completes, the second throws on its write, and the resolved theme stays
  \<^verbatim>\<open>'dark'\<close>.
\<close>

lemma second_click_can_exceed_quota:
  "fst (toggleClick (freshPage (storeWithRoom Map.empty 9) False)) = Normal () \<and>
   fst (toggleClick (snd (toggleClick (freshPage (storeWithRoom Map.empty 9) False))))
     = Throw QuotaExceededError \<and>
   getCurrentTheme (snd (toggleClick (snd (toggleClick
      (freshPage (storeWithRoom Map.empty 9) False))))) = Normal (Str ''dark'')"
  by (simp add: getCurrentTheme_def toggleClick_def newThemeOf_def Let_def storeWithRoom_def
      freshPage_def systemTheme_def updateIcons_def pairSize_def heldBy_def)

text \<open>
  Claim C7. Only the click listener writes the store. Both load-time scripts and the
  storage listener leave the store exactly as it was. A click either leaves the store as
  it was or overwrites the key \<^verbatim>\<open>theme\<close> with \<^verbatim>\<open>'dark'\<close> or \<^verbatim>\<open>'light'\<close> (the free
  space changing with the write); it removes no key and changes no other key.
\<close>

theorem only_toggle_writes:
  "localStorage (snd (initializeOnLoad p)) = localStorage p \<and>
   localStorage (snd (initializeOnLoad_guide p)) = localStorage p \<and>
   localStorage (snd (onStorage e p)) = localStorage p \<and>
   (localStorage (snd (toggleClick p)) = localStorage p \<or>
    (\<exists>a n. localStorage p = Defined a \<and>
        (localStorage (snd (toggleClick p)) =
           Defined (a\<lparr>items := (items a)(''theme'' \<mapsto> ''dark''), freeUnits := n\<rparr>) \<or>
         localStorage (snd (toggleClick p)) =
           Defined (a\<lparr>items := (items a)(''theme'' \<mapsto> ''light''), freeUnits := n\<rparr>)))) \<and>
   dom (itemsOf (localStorage p)) \<subseteq> dom (itemsOf (localStorage (snd (toggleClick p)))) \<and>
   (\<forall>k. k \<noteq> ''theme'' \<longrightarrow>
        itemsOf (localStorage (snd (toggleClick p))) k = itemsOf (localStorage p) k)"
proof -
  have frame: "dom (itemsOf (localStorage p)) \<subseteq> dom (itemsOf (localStorage (snd (toggleClick p))))"
    using toggleClick_store_cases [of p] by auto
  have other: "\<forall>k. k \<noteq> ''theme'' \<longrightarrow>
        itemsOf (localStorage (snd (toggleClick p))) k = itemsOf (localStorage p) k"
    using toggleClick_store_cases [of p] by auto
  show ?thesis
    using initializeOnLoad_store [of p] initializeOnLoad_guide_store [of p]
      onStorage_store [of e p] toggleClick_store_cases [of p] frame other
    by blast
qed

theorem only_toggle_writes_witness:
  "''lang'' \<noteq> ''theme'' \<and>
   itemsOf (localStorage (snd (toggleClick
      (freshPage (storeOf [''lang'' \<mapsto> ''vi'', ''theme'' \<mapsto> ''dark'']) False)))) ''lang''
     = Some ''vi'' \<and>
   itemsOf (localStorage (snd (toggleClick
      (freshPage (storeOf [''lang'' \<mapsto> ''vi'', ''theme'' \<mapsto> ''dark'']) False)))) ''theme''
     = Some ''light'' \<and>
   localStorage (snd (initializeOnLoad
      (freshPage (storeOf [''lang'' \<mapsto> ''vi'', ''theme'' \<mapsto> ''dark'']) False)))
     = storeOf [''lang'' \<mapsto> ''vi'', ''theme'' \<mapsto> ''dark'']"
proof -
  let ?p = "freshPage (storeOf [''lang'' \<mapsto> ''vi'', ''theme'' \<mapsto> ''dark'']) False"
  have k: "''lang'' \<noteq> ''theme''" by simp
  have t: "itemsOf (localStorage (snd (toggleClick ?p))) ''theme'' = Some ''light''"
    by (simp add: getCurrentTheme_def toggleClick_def newThemeOf_def Let_def storeOf_def
        freshPage_def updateIcons_def pairSize_def heldBy_def)
  note w = only_toggle_writes [of ?p "\<lparr>key = Null, newValue = Null\<rparr>"]
  have i: "localStorage (snd (initializeOnLoad ?p)) = localStorage ?p"
    by (rule w [THEN conjunct1])
  have f: "\<forall>k. k \<noteq> ''theme'' \<longrightarrow>
        itemsOf (localStorage (snd (toggleClick ?p))) k = itemsOf (localStorage ?p) k"
    by (rule w [THEN conjunct2, THEN conjunct2, THEN conjunct2, THEN conjunct2, THEN conjunct2])
  have l: "itemsOf (localStorage (snd (toggleClick ?p))) ''lang''
          = itemsOf (localStorage ?p) ''lang''"
    by (rule f [rule_format, OF k])
  have v: "itemsOf (localStorage ?p) ''lang'' = Some ''vi''"
    by (simp add: storeOf_def)
  have s: "localStorage ?p = storeOf [''lang'' \<mapsto> ''vi'', ''theme'' \<mapsto> ''dark'']"
    by simp
  have l': "itemsOf (localStorage (snd (toggleClick ?p))) ''lang'' = Some ''vi''"
    using l v by simp
  have i': "localStorage (snd (initializeOnLoad ?p))
              = storeOf [''lang'' \<mapsto> ''vi'', ''theme'' \<mapsto> ''dark'']"
    using i s by simp
  show ?thesis
    by (intro conjI k t l' i')
qed

section \<open>Failure of the store\<close>

text \<open>
  Claim C3, as stated: when a read of the store throws, no operation propagates the
  exception, and with the colour-scheme signal at light the resolution returns
  \<^verbatim>\<open>'light'\<close>. It fails: no script catches anything, so with a store whose access
  throws, the resolution, the load-time script and the click all end in the exception.
\<close>

theorem store_throws_counterexample:
  "getThemePreference (freshPage AccessDenied False) \<noteq> Normal (Str ''light'') \<and>
   getThemePreference (freshPage AccessDenied False) = Throw SecurityError \<and>
   fst (initializeOnLoad (freshPage AccessDenied False)) = Throw SecurityError \<and>
   fst (toggleClick (freshPage AccessDenied False)) = Throw SecurityError"
  by (simp add: getThemePreference_def initializeOnLoad_def toggleClick_def
      getCurrentTheme_def freshPage_def)

text \<open>
  Claim C3, amended. When \<^verbatim>\<open>localStorage\<close> is undefined, \<open>getThemePreference\<close> and the
  load-time script raise nothing and fall back to the colour-scheme signal (undefined
  store and signal light give \<^verbatim>\<open>'light'\<close>). Whenever access to the store does not throw,
  the resolution and the load-time script complete; when the store is present and accepts
  writes (the write of either theme fits), the click completes; the storage listener
  always completes.
\<close>

theorem no_exception_when_store_quiet:
  "(localStorage p = NotDefined \<longrightarrow>
      getThemePreference p = Normal (Str (if prefersDark p then ''dark'' else ''light'')) \<and>
      initializeOnLoad p =
        (Normal (), p\<lparr>classList :=
           applyTheme (Str (if prefersDark p then ''dark'' else ''light'')) (classList p)\<rparr>)) \<and>
   (localStorage p \<noteq> AccessDenied \<longrightarrow>
      (\<exists>t. getThemePreference p = Normal t) \<and> fst (initializeOnLoad p) = Normal ()) \<and>
   (usable (localStorage p) \<longrightarrow>
      (\<exists>t. getCurrentTheme p = Normal t) \<and> fst (toggleClick p) = Normal ()) \<and>
   fst (onStorage e p) = Normal ()"
proof -
  have a: "localStorage p = NotDefined \<Longrightarrow>
      getThemePreference p = Normal (Str (if prefersDark p then ''dark'' else ''light''))"
    by (simp add: getThemePreference_NotDefined systemTheme_def)
  have b: "localStorage p = NotDefined \<Longrightarrow> initializeOnLoad p =
        (Normal (), p\<lparr>classList :=
           applyTheme (Str (if prefersDark p then ''dark'' else ''light'')) (classList p)\<rparr>)"
    using a by (simp add: initializeOnLoad_def)
  have c: "localStorage p \<noteq> AccessDenied \<Longrightarrow>
      (\<exists>t. getThemePreference p = Normal t) \<and> fst (initializeOnLoad p) = Normal ()"
    using getThemePreference_value [of p] by (simp add: initializeOnLoad_def)
  have d: "usable (localStorage p) \<Longrightarrow>
      (\<exists>t. getCurrentTheme p = Normal t) \<and> fst (toggleClick p) = Normal ()"
    using toggleClick_usable [of p] by blast
  have e: "fst (onStorage e p) = Normal ()"
    by (simp add: onStorage_def)
  show ?thesis using a b c d e by blast
qed

theorem no_exception_when_store_quiet_witness:
  "localStorage (freshPage NotDefined False) = NotDefined \<and>
   getThemePreference (freshPage NotDefined False) = Normal (Str ''light'') \<and>
   fst (initializeOnLoad (freshPage NotDefined False)) = Normal () \<and>
   usable (localStorage (freshPage (storeOf Map.empty) False)) \<and>
   fst (toggleClick (freshPage (storeOf Map.empty) False)) = Normal ()"
proof -
  have h1: "localStorage (freshPage NotDefined False) = NotDefined" by simp
  have h2: "usable (localStorage (freshPage (storeOf Map.empty) False))" by simp
  show ?thesis
    using h1 h2
      no_exception_when_store_quiet [of "freshPage NotDefined False" "\<lparr>key = Null, newValue = Null\<rparr>"]
      no_exception_when_store_quiet [of "freshPage (storeOf Map.empty) False" "\<lparr>key = Null, newValue = Null\<rparr>"]
    by simp
qed

section \<open>Synchronising views\<close>

text \<open>
  Claim C6, as stated: on a notification for the key \<^verbatim>\<open>theme\<close> the listener sets the
  marker to the effective theme derived from the notified value, falling back to the
  colour-scheme signal when no value is notified. It fails when the notified value is
  \<^verbatim>\<open>null\<close> and the signal is dark: the derivation gives dark, the listener removes the
  marker, since it never reads the signal.
\<close>

theorem onStorage_derivation_counterexample:
  "hasDark (snd (onStorage \<lparr>key = Str ''theme'', newValue = Null\<rparr>
                   (freshPage (storeOf Map.empty) True)))
   \<noteq> hasDark ((freshPage (storeOf Map.empty) True)
        \<lparr>classList := applyTheme (spec_effectiveTheme Null True)
                        (classList (freshPage (storeOf Map.empty) True))\<rparr>)"
  by (simp add: hasDark_def onStorage_def applyTheme_def spec_effectiveTheme_def
      classList_add_def classList_remove_def)

text \<open>
  Claim C6, amended. On a notification for the key \<^verbatim>\<open>theme\<close> the listener applies the
  notified value itself: the marker is present afterwards exactly when the notified value
  is the string \<^verbatim>\<open>'dark'\<close>, whatever the colour-scheme signal. This is the marker of the
  derived effective theme whenever a value is notified or the signal is not dark.
\<close>

theorem onStorage_marker:
  assumes "key e = Str ''theme''"
  shows "classList (snd (onStorage e p)) = applyTheme (newValue e) (classList p) \<and>
         (hasDark (snd (onStorage e p)) \<longleftrightarrow> newValue e = Str ''dark'') \<and>
         (newValue e \<noteq> Null \<or> \<not> prefersDark p \<longrightarrow>
            classList (snd (onStorage e p)) =
              applyTheme (spec_effectiveTheme (newValue e) (prefersDark p)) (classList p))"
  using assms
  by (auto simp: hasDark_def onStorage_def applyTheme_def spec_effectiveTheme_def
      classList_add_def classList_remove_def split: jsval.splits)

theorem onStorage_marker_witness:
  "key \<lparr>key = Str ''theme'', newValue = Str ''dark''\<rparr> = Str ''theme'' \<and>
   hasDark (snd (onStorage \<lparr>key = Str ''theme'', newValue = Str ''dark''\<rparr>
                   (freshPage (storeOf Map.empty) False))) \<and>
   classList (snd (onStorage \<lparr>key = Str ''theme'', newValue = Str ''dark''\<rparr>
                   (freshPage (storeOf Map.empty) False)))
     = applyTheme (spec_effectiveTheme (Str ''dark'') False) []"
proof -
  have h: "key \<lparr>key = Str ''theme'', newValue = Str ''dark''\<rparr> = Str ''theme''" by simp
  show ?thesis
    using h onStorage_marker [OF h, of "freshPage (storeOf Map.empty) False"]
    by (simp add: spec_effectiveTheme_def)
qed

text \<open>
  Claim C4. Two views share one store. View A's click completes, so it has written the
  key \<^verbatim>\<open>theme\<close>; the notification delivered to view B carries that key and, as new value,
  what the store now holds under it. After B's listener has run, the marker of B equals
  the marker of A.
\<close>

theorem cross_tab_convergence:
  assumes "toggleClick a = (Normal (), a')"
    and "localStorage b = localStorage a"
    and "key e = Str ''theme''"
    and "getItem (localStorage a') ''theme'' = Normal (newValue e)"
  shows "hasDark (snd (onStorage e (b\<lparr>localStorage := localStorage a'\<rparr>))) = hasDark a'"
proof -
  from assms(1) have fin: "fst (toggleClick a) = Normal ()" by simp
  from fin obtain ar t where ar: "localStorage a = Defined ar"
    and t: "getCurrentTheme a = Normal t"
    and room: "pairSize ''theme'' (newThemeOf t) \<le> heldBy ar ''theme'' + freeUnits ar"
    by (rule toggleClick_Normal)
  have a': "a' = snd (toggleClick a)" using assms(1) by simp
  have st: "itemsOf (localStorage a') ''theme'' = Some (newThemeOf t)"
    and df: "\<exists>x. localStorage a' = Defined x"
    and cl: "classList a' = applyTheme (Str (newThemeOf t)) (classList a)"
    unfolding a' by (simp_all add: toggleClick_Defined [OF ar t room])
  from df obtain x where x: "localStorage a' = Defined x" by blast
  from assms(4) st x have nv: "newValue e = Str (newThemeOf t)" by simp
  show ?thesis
    using assms(3) nv cl
    by (auto simp: hasDark_def onStorage_def applyTheme_def classList_add_def
        classList_remove_def newThemeOf_def)
qed

theorem cross_tab_convergence_witness:
  "toggleClick (freshPage (storeOf Map.empty) False)
     = (Normal (), snd (toggleClick (freshPage (storeOf Map.empty) False))) \<and>
   getItem (localStorage (snd (toggleClick (freshPage (storeOf Map.empty) False)))) ''theme''
     = Normal (Str ''dark'') \<and>
   hasDark (snd (toggleClick (freshPage (storeOf Map.empty) False))) \<and>
   hasDark (snd (onStorage \<lparr>key = Str ''theme'', newValue = Str ''dark''\<rparr>
     ((freshPage (storeOf Map.empty) True)
        \<lparr>localStorage := localStorage (snd (toggleClick (freshPage (storeOf Map.empty) False)))\<rparr>)))"
proof -
  let ?a = "freshPage (storeOf Map.empty) False"
  let ?b = "freshPage (storeOf Map.empty) True"
  let ?e = "\<lparr>key = Str ''theme'', newValue = Str ''dark''\<rparr>"
  have h1: "toggleClick ?a = (Normal (), snd (toggleClick ?a))"
    by (simp add: getCurrentTheme_def toggleClick_def newThemeOf_def Let_def storeOf_def
        freshPage_def systemTheme_def pairSize_def heldBy_def)
  have h2: "localStorage ?b = localStorage ?a" by simp
  have h3: "key ?e = Str ''theme''" by simp
  have h4: "getItem (localStorage (snd (toggleClick ?a))) ''theme'' = Normal (newValue ?e)"
    by (simp add: getCurrentTheme_def toggleClick_def newThemeOf_def Let_def storeOf_def
        freshPage_def systemTheme_def pairSize_def heldBy_def)
  have h5: "hasDark (snd (toggleClick ?a))"
    by (simp add: getCurrentTheme_def toggleClick_def newThemeOf_def Let_def storeOf_def
        freshPage_def systemTheme_def hasDark_def applyTheme_def classList_add_def
        pairSize_def heldBy_def)
  show ?thesis
    using h1 h4 h5 cross_tab_convergence [OF h1 h2 h3 h4] by simp
qed

section \<open>The two published head scripts\<close>

text \<open>
  Claim C10 says the two versions of \<open>getThemePreference\<close> agree on every input. They
  do not: with a store present, the key absent and the colour-scheme signal dark, the
  version of dark-mode-implementation.md falls back to the signal and returns
  \<^verbatim>\<open>'dark'\<close>, while the version of astro-blog-guide.md returns the \<^verbatim>\<open>null\<close> of
  \<^verbatim>\<open>getItem\<close>, and its script leaves the page without the marker.
\<close>

theorem getThemePreference_versions_differ:
  "getThemePreference (freshPage (storeOf Map.empty) True) = Normal (Str ''dark'') \<and>
   getThemePreference_guide (freshPage (storeOf Map.empty) True) = Normal Null \<and>
   hasDark (snd (initializeOnLoad (freshPage (storeOf Map.empty) True))) \<and>
   \<not> hasDark (snd (initializeOnLoad_guide (freshPage (storeOf Map.empty) True)))"
  by (simp add: getThemePreference_def getThemePreference_guide_def initializeOnLoad_def
      initializeOnLoad_guide_def hasDark_def applyTheme_def classList_add_def
      classList_remove_def systemTheme_def freshPage_def storeOf_def)

end
